theory Spec2Isabelle
  imports Complex_Main "HOL-Library.Word" "HOL-Library.Char_ord" "HOL-Library.List_Lexorder"
begin

section \<open>Arrays of 8-bit samples and the array store\<close>

text \<open>
  The scripts work on numpy arrays of dtype uint8. A sample is an 8-bit word; a
  grayscale image (what \<open>cv2.imdecode\<close> returns under \<open>IMREAD_GRAYSCALE\<close>) is a list
  of rows, a colour image a list of rows of pixels, each pixel the list of its channels.

  Python variables hold references to arrays. Where a function writes into an array
  (\<open>Result[mask] = 0\<close>), the arrays live in a store and the variables are addresses, so
  that a write through one name is visible through every alias of it.
\<close>

type_synonym u8 = "8 word"
type_synonym gray = "u8 list list"
type_synonym color = "u8 list list list"
type_synonym store = "gray list"

text \<open>\<open>ndarray.copy()\<close>: a new array with the same contents, at a fresh address.\<close>

definition ndarray_copy :: "store \<Rightarrow> nat \<Rightarrow> store \<times> nat" where
  "ndarray_copy h a = (h @ [h ! a], length h)"

text \<open>\<open>arr < scalar\<close>: the boolean array of the elementwise comparison. The scalar is a
  Python int or float; a uint8 sample is compared by its numeric value.\<close>

definition less_scalar :: "gray \<Rightarrow> real \<Rightarrow> bool list list" where
  "less_scalar arr t = map (map (\<lambda>x. real (unat x) < t)) arr"

text \<open>\<open>arr[mask] = v\<close>: writes \<open>v\<close> in place wherever the mask holds.\<close>

definition setitem_mask :: "store \<Rightarrow> nat \<Rightarrow> bool list list \<Rightarrow> u8 \<Rightarrow> store" where
  "setitem_mask h a msk v =
     h[a := map2 (map2 (\<lambda>m x. if m then v else x)) msk (h ! a)]"

section \<open>DrawBlackBasedThreshold\<close>

text \<open>
  \<^verbatim>\<open>
  def DrawBlackBasedThreshold(ImgData, Threshold):
      Result = ImgData.copy()
      Result[Result < Threshold] = 0
      return Result
  \<close>
\<close>

definition DrawBlackBasedThreshold :: "store \<Rightarrow> nat \<Rightarrow> real \<Rightarrow> store \<times> nat" where
  "DrawBlackBasedThreshold h ImgData Threshold =
     (let (h1, Result) = ndarray_copy h ImgData;
          msk = less_scalar (h1 ! Result) Threshold;
          h2 = setitem_mask h1 Result msk 0
      in (h2, Result))"

text \<open>The value a sample has after the suppression.\<close>

definition suppressed :: "real \<Rightarrow> u8 \<Rightarrow> u8" where
  "suppressed t x = (if real (unat x) < t then 0 else x)"

section \<open>Floating-point values\<close>

text \<open>
  numpy and OpenCV compute in IEEE binary floating point. A float is modelled as a real
  number or one of the three special values; arithmetic on finite values is exact
  (rounding and overflow to infinity are outside the model), and the special values
  follow the IEEE rules. numpy does not raise on an invalid operation or a division by
  zero: it warns and returns NaN or an infinity. A zero is the positive zero.
\<close>

datatype fl = NaN | PInf | NInf | Fin real

fun fl_neg :: "fl \<Rightarrow> fl" where
  "fl_neg NaN = NaN"
| "fl_neg PInf = NInf"
| "fl_neg NInf = PInf"
| "fl_neg (Fin a) = Fin (- a)"

fun fl_add :: "fl \<Rightarrow> fl \<Rightarrow> fl" where
  "fl_add (Fin a) (Fin b) = Fin (a + b)"
| "fl_add NaN _ = NaN"
| "fl_add _ NaN = NaN"
| "fl_add PInf NInf = NaN"
| "fl_add NInf PInf = NaN"
| "fl_add PInf _ = PInf"
| "fl_add NInf _ = NInf"
| "fl_add _ PInf = PInf"
| "fl_add _ NInf = NInf"

definition fl_sub :: "fl \<Rightarrow> fl \<Rightarrow> fl" where
  "fl_sub x y = fl_add x (fl_neg y)"

fun fl_negative :: "fl \<Rightarrow> bool" where
  "fl_negative NInf = True"
| "fl_negative (Fin a) = (a < 0)"
| "fl_negative _ = False"

fun fl_mul :: "fl \<Rightarrow> fl \<Rightarrow> fl" where
  "fl_mul (Fin a) (Fin b) = Fin (a * b)"
| "fl_mul NaN _ = NaN"
| "fl_mul _ NaN = NaN"
| "fl_mul x y =
     (if x = Fin 0 \<or> y = Fin 0 then NaN
      else if fl_negative x = fl_negative y then PInf else NInf)"

fun fl_div :: "fl \<Rightarrow> fl \<Rightarrow> fl" where
  "fl_div (Fin a) (Fin b) =
     (if b \<noteq> 0 then Fin (a / b)
      else if a = 0 then NaN else if 0 < a then PInf else NInf)"
| "fl_div NaN _ = NaN"
| "fl_div _ NaN = NaN"
| "fl_div (Fin a) _ = Fin 0"
| "fl_div x (Fin b) = (if fl_negative x = (b < 0) then PInf else NInf)"
| "fl_div _ _ = NaN"

text \<open>\<open>np.mean\<close> of a list of floats: the sum divided by the number of elements. On the
  empty list that is 0.0 / 0, which numpy returns as NaN (with a RuntimeWarning).\<close>

definition np_mean :: "fl list \<Rightarrow> fl" where
  "np_mean xs = fl_div (foldl fl_add (Fin 0) xs) (Fin (real (length xs)))"

text \<open>\<open>np.clip(x, lo, hi)\<close> on one sample: \<open>minimum(maximum(x, lo), hi)\<close>, NaN kept.\<close>

fun np_clip :: "real \<Rightarrow> real \<Rightarrow> fl \<Rightarrow> fl" where
  "np_clip lo hi NaN = NaN"
| "np_clip lo hi PInf = Fin hi"
| "np_clip lo hi NInf = Fin (min lo hi)"
| "np_clip lo hi (Fin v) = Fin (min (max v lo) hi)"

text \<open>\<open>astype(np.float32)\<close> of a uint8 sample: every value 0..255 is a float.\<close>

definition float_of_u8 :: "u8 \<Rightarrow> fl" where
  "float_of_u8 x = Fin (real (unat x))"

text \<open>\<open>astype(np.uint8)\<close> of a float sample is the C conversion: the fraction is
  discarded (truncation toward zero) and the integer is reduced to 8 bits. C leaves the
  conversion of NaN and of the infinities undefined; numpy's builds for x86-64 and
  AArch64 give 0 for NaN.\<close>

definition c_truncate :: "real \<Rightarrow> int" where
  "c_truncate v = (if 0 \<le> v then \<lfloor>v\<rfloor> else \<lceil>v\<rceil>)"

fun u8_of_float :: "fl \<Rightarrow> u8" where
  "u8_of_float (Fin v) = word_of_int (c_truncate v)"
| "u8_of_float _ = 0"

text \<open>An elementwise operation between an array and a scalar.\<close>

definition arr_scalar :: "('a \<Rightarrow> 'b \<Rightarrow> 'c) \<Rightarrow> 'a list list \<Rightarrow> 'b \<Rightarrow> 'c list list" where
  "arr_scalar f arr c = map (map (\<lambda>x. f x c)) arr"

section \<open>AdjustImage\<close>

text \<open>
  \<^verbatim>\<open>
  def AdjustImage(TestImgData, TestMean, TestStd, TrainMean, TrainStd):
      TestImgData = TestImgData.astype(np.float32)
      TestImgData = (TestImgData - TestMean) / (TestStd + 1e-8) * TrainStd + TrainMean
      TestImgData = np.clip(TestImgData, 0, 255)
      return TestImgData.astype(np.uint8)
  \<close>
  \<open>AdjustImage_clipped\<close> is the float array after the third line.
\<close>

definition AdjustImage_clipped :: "gray \<Rightarrow> fl \<Rightarrow> fl \<Rightarrow> fl \<Rightarrow> fl \<Rightarrow> fl list list" where
  "AdjustImage_clipped TestImgData TestMean TestStd TrainMean TrainStd =
     (let a0 = map (map float_of_u8) TestImgData;
          a1 = arr_scalar fl_sub a0 TestMean;
          a2 = arr_scalar fl_div a1 (fl_add TestStd (Fin (1 / 100000000)));
          a3 = arr_scalar fl_mul a2 TrainStd;
          a4 = arr_scalar fl_add a3 TrainMean
      in map (map (np_clip 0 255)) a4)"

definition AdjustImage :: "gray \<Rightarrow> fl \<Rightarrow> fl \<Rightarrow> fl \<Rightarrow> fl \<Rightarrow> gray" where
  "AdjustImage TestImgData TestMean TestStd TrainMean TrainStd =
     map (map u8_of_float) (AdjustImage_clipped TestImgData TestMean TestStd TrainMean TrainStd)"




section \<open>Paths\<close>

text \<open>
  The three functions of \<open>os.path\<close> the scripts call, in their POSIX flavour
  (\<open>posixpath\<close>: the separator is \<open>/\<close>), following the library's code.
  \<open>str.rfind\<close> gives the highest index of a character, or -1.
\<close>

definition rfind :: "string \<Rightarrow> char \<Rightarrow> int" where
  "rfind p c =
     (if c \<in> set p
      then int (length p) - 1 - int (length (takeWhile (\<lambda>x. x \<noteq> c) (rev p)))
      else - 1)"

text \<open>\<open>basename(p)\<close>: \<^verbatim>\<open>i = p.rfind('/') + 1; return p[i:]\<close>\<close>

definition basename :: "string \<Rightarrow> string" where
  "basename p = drop (nat (rfind p CHR ''/'' + 1)) p"

text \<open>
  \<^verbatim>\<open>
  def splitext(p):
      sepIndex = p.rfind('/')
      dotIndex = p.rfind('.')
      if dotIndex > sepIndex:
          filenameIndex = sepIndex + 1
          while filenameIndex < dotIndex:
              if p[filenameIndex:filenameIndex+1] != '.':
                  return p[:dotIndex], p[dotIndex:]
              filenameIndex += 1
      return p, p[:0]
  \<close>
  The loop looks for a character other than the dot between the last separator and the
  last dot: a name made of leading dots only has no extension.
\<close>

definition splitext :: "string \<Rightarrow> string \<times> string" where
  "splitext p =
     (let sepIndex = rfind p CHR ''/'';
          dotIndex = rfind p CHR ''.''
      in if sepIndex < dotIndex
            \<and> list_ex (\<lambda>c. c \<noteq> CHR ''.'') (drop (nat (sepIndex + 1)) (take (nat dotIndex) p))
         then (take (nat dotIndex) p, drop (nat dotIndex) p)
         else (p, []))"

text \<open>
  \<open>join(a, b)\<close>:
  \<^verbatim>\<open>
  if b.startswith('/'): path = b
  elif not path or path.endswith('/'): path += b
  else: path += '/' + b
  \<close>
\<close>

definition path_join :: "string \<Rightarrow> string \<Rightarrow> string" where
  "path_join a b =
     (if b \<noteq> [] \<and> hd b = CHR ''/'' then b
      else if a = [] \<or> last a = CHR ''/'' then a @ b
      else a @ ''/'' @ b)"

section \<open>Files, errors and the libraries\<close>

text \<open>
  The exceptions the scripts can meet. Neither script defines an exception class or has
  a \<open>raise\<close> statement: every error comes out of a library call.
\<close>

datatype error =
    OSError           \<comment> \<open>\<open>open\<close> on a path that cannot be opened\<close>
  | CvError           \<comment> \<open>\<open>cv2.error\<close>, from an OpenCV call\<close>
  | TfError           \<comment> \<open>from TensorFlow: loading the model, predicting, \<open>tf.argmax\<close>\<close>
  | IndexError        \<comment> \<open>a boolean index whose shape differs from the array's\<close>
  | ValueError        \<comment> \<open>a value that cannot be broadcast, arrays that cannot be stacked\<close>
  | AttributeError    \<comment> \<open>an attribute of \<open>None\<close>\<close>

text \<open>
  The world is the content of the files, and a log of what a run did to them, oldest
  first: each file opened for reading, each file opened for writing, each prediction of
  the model (tagged with the path of the image it was made for).
\<close>

datatype event = Opened_r string | Opened_w string | Predicted string

record world =
  files :: "string \<rightharpoonup> u8 list"
  trace :: "event list"

definition log :: "event \<Rightarrow> world \<Rightarrow> world" where
  "log e w = w\<lparr>trace := trace w @ [e]\<rparr>"

text \<open>
  What the scripts take from \<open>glob\<close>, OpenCV and the file system, as parameters:
  \<^item> \<open>glob_glob pattern\<close>: the paths \<open>glob.glob\<close> returns. Both scripts list their
    directories before they write any file, so a listing does not depend on the run;
  \<^item> \<open>imdecode data\<close>: \<open>cv2.imdecode\<close> with the script's flag. It returns \<open>None\<close> when
    the bytes are not an image it can decode, and can raise (recent versions do on an
    empty buffer);
  \<^item> \<open>imencode ext img\<close>: \<open>cv2.imencode\<close>, which raises when it has no encoder for the
    extension or the array is not an image it can encode, and otherwise returns a
    success flag and the encoded bytes;
  \<^item> \<open>can_create path\<close>: whether \<open>open(path, 'wb')\<close> succeeds.
\<close>

record 'img cvlib =
  glob_glob :: "string \<Rightarrow> string list"
  imdecode :: "u8 list \<Rightarrow> error + 'img option"
  imencode :: "string \<Rightarrow> 'img \<Rightarrow> error + bool \<times> u8 list"
  can_create :: "string \<Rightarrow> bool"

section \<open>ReadImg and WriteImg\<close>

text \<open>
  Both scripts define the two functions with the same body; only the flag given to
  \<open>cv2.imdecode\<close> differs (grayscale in AdjustGray_Uetsu.py, colour in EnsembleSeg.py).
  \<^verbatim>\<open>
  def ReadImg(Path):
      with open(Path, 'rb') as f:
          Data = np.frombuffer(f.read(), np.uint8)
      return cv2.imdecode(Data, cv2.IMREAD_GRAYSCALE)
  \<close>
  The result is whatever \<open>cv2.imdecode\<close> returns: an image, or \<open>None\<close>.
\<close>

definition ReadImg :: "('img, 'x) cvlib_scheme \<Rightarrow> string \<Rightarrow> world \<Rightarrow> (error + 'img option) \<times> world" where
  "ReadImg L Path w =
     (case files w Path of
        None \<Rightarrow> (Inl OSError, w)
      | Some Data \<Rightarrow> (imdecode L Data, log (Opened_r Path) w))"

text \<open>
  \<^verbatim>\<open>
  def WriteImg(Path, ImgData):
      Ext = os.path.splitext(Path)[1]
      _, encoded_img = cv2.imencode(Ext, ImgData)
      with open(Path, mode='wb') as f:
          encoded_img.tofile(f)
  \<close>
  The success flag of \<open>cv2.imencode\<close> is dropped. Opening the file creates it, or
  empties the one that is there; then the bytes are written.
\<close>

definition WriteImg :: "('img, 'x) cvlib_scheme \<Rightarrow> string \<Rightarrow> 'img \<Rightarrow> world \<Rightarrow> (error + unit) \<times> world" where
  "WriteImg L Path ImgData w =
     (let Ext = snd (splitext Path)
      in case imencode L Ext ImgData of
           Inl e \<Rightarrow> (Inl e, w)
         | Inr (_, encoded_img) \<Rightarrow>
             if can_create L Path
             then (Inr (), log (Opened_w Path) (w\<lparr>files := (files w)(Path \<mapsto> encoded_img)\<rparr>))
             else (Inl OSError, w))"

section \<open>The normalization pipeline\<close>

text \<open>AdjustGray_Uetsu.py also calls \<open>cv2.meanStdDev\<close>, on a grayscale image.\<close>

record graylib = "gray cvlib" +
  meanStdDev :: "gray \<Rightarrow> fl \<times> fl"

text \<open>
  \<^verbatim>\<open>
  def CalcMeanStd(ImgPath):
      ImgData = ReadImg(ImgPath)
      Mean, Std = cv2.meanStdDev(ImgData)
      return float(Mean), float(Std), ImgData
  \<close>
  \<open>cv2.meanStdDev(None)\<close> raises \<open>cv2.error\<close>.
\<close>

definition CalcMeanStd :: "graylib \<Rightarrow> string \<Rightarrow> world \<Rightarrow> (error + fl \<times> fl \<times> gray) \<times> world" where
  "CalcMeanStd L ImgPath w =
     (case ReadImg L ImgPath w of
        (Inl e, w1) \<Rightarrow> (Inl e, w1)
      | (Inr None, w1) \<Rightarrow> (Inl CvError, w1)
      | (Inr (Some ImgData), w1) \<Rightarrow>
          (let (Mean, Std) = meanStdDev L ImgData in (Inr (Mean, Std, ImgData), w1)))"

text \<open>
  \<^verbatim>\<open>
  def GetImgMeanStd(ImgDir, ImageExtension):
      MeanList, StdList = [], []
      for ImgPath in glob.glob(os.path.join(ImgDir, '*' + ImageExtension)):
          Mean, Std, _ = CalcMeanStd(ImgPath)
          MeanList.append(Mean)
          StdList.append(Std)
      return np.mean(MeanList), np.mean(StdList)
  \<close>
\<close>

fun GetImgMeanStd_loop ::
  "graylib \<Rightarrow> string list \<Rightarrow> fl list \<Rightarrow> fl list \<Rightarrow> world \<Rightarrow> (error + fl list \<times> fl list) \<times> world" where
  "GetImgMeanStd_loop L [] MeanList StdList w = (Inr (MeanList, StdList), w)"
| "GetImgMeanStd_loop L (ImgPath # rest) MeanList StdList w =
     (case CalcMeanStd L ImgPath w of
        (Inl e, w1) \<Rightarrow> (Inl e, w1)
      | (Inr (Mean, Std, _), w1) \<Rightarrow>
          GetImgMeanStd_loop L rest (MeanList @ [Mean]) (StdList @ [Std]) w1)"

definition GetImgMeanStd :: "graylib \<Rightarrow> string \<Rightarrow> string \<Rightarrow> world \<Rightarrow> (error + fl \<times> fl) \<times> world" where
  "GetImgMeanStd L ImgDir ImageExtension w =
     (case GetImgMeanStd_loop L (glob_glob L (path_join ImgDir (''*'' @ ImageExtension))) [] [] w of
        (Inl e, w1) \<Rightarrow> (Inl e, w1)
      | (Inr (MeanList, StdList), w1) \<Rightarrow> (Inr (np_mean MeanList, np_mean StdList), w1))"

text \<open>
  \<^verbatim>\<open>
  def Adjust(TrainImgDir, TestImgDir, ImageExtension, OutputDir, Threshold):
      TrainMean, TrainStd = GetImgMeanStd(TrainImgDir, ImageExtension)
      print('Train Dir: Mean\t', TrainMean, '', TrainStd)
      TestImgPathList = glob.glob(os.path.join(TestImgDir, '*' + ImageExtension))
      for TestImgPath in TestImgPathList:
          TestMean, TestStd, TestImgData = CalcMeanStd(TestImgPath)
          AdjImg = AdjustImage(TestImgData, TestMean, TestStd, TrainMean, TrainStd)
          AdjImg = DrawBlackBasedThreshold(AdjImg, Threshold)
          BaseFilename = os.path.splitext(os.path.basename(TestImgPath))[0]
          OutputPath = os.path.join(OutputDir, BaseFilename + '.png')
          WriteImg(OutputPath, AdjImg)
  \<close>
  The arrays of one iteration are local to it: DrawBlackBasedThreshold runs on a store
  that holds the adjusted image alone. The \<open>print\<close> is not part of the model.
\<close>

definition Adjust_OutputPath :: "string \<Rightarrow> string \<Rightarrow> string" where
  "Adjust_OutputPath OutputDir TestImgPath =
     (let BaseFilename = fst (splitext (basename TestImgPath))
      in path_join OutputDir (BaseFilename @ ''.png''))"

fun Adjust_loop ::
  "graylib \<Rightarrow> fl \<Rightarrow> fl \<Rightarrow> string \<Rightarrow> real \<Rightarrow> string list \<Rightarrow> world \<Rightarrow> (error + unit) \<times> world" where
  "Adjust_loop L TrainMean TrainStd OutputDir Threshold [] w = (Inr (), w)"
| "Adjust_loop L TrainMean TrainStd OutputDir Threshold (TestImgPath # rest) w =
     (case CalcMeanStd L TestImgPath w of
        (Inl e, w1) \<Rightarrow> (Inl e, w1)
      | (Inr (TestMean, TestStd, TestImgData), w1) \<Rightarrow>
          (let AdjImg = AdjustImage TestImgData TestMean TestStd TrainMean TrainStd;
               (h, r) = DrawBlackBasedThreshold [AdjImg] 0 Threshold;
               AdjImg = h ! r;
               OutputPath = Adjust_OutputPath OutputDir TestImgPath
           in case WriteImg L OutputPath AdjImg w1 of
                (Inl e, w2) \<Rightarrow> (Inl e, w2)
              | (Inr _, w2) \<Rightarrow> Adjust_loop L TrainMean TrainStd OutputDir Threshold rest w2))"

definition Adjust ::
  "graylib \<Rightarrow> string \<Rightarrow> string \<Rightarrow> string \<Rightarrow> string \<Rightarrow> real \<Rightarrow> world \<Rightarrow> (error + unit) \<times> world" where
  "Adjust L TrainImgDir TestImgDir ImageExtension OutputDir Threshold w =
     (case GetImgMeanStd L TrainImgDir ImageExtension w of
        (Inl e, w1) \<Rightarrow> (Inl e, w1)
      | (Inr (TrainMean, TrainStd), w1) \<Rightarrow>
          (let TestImgPathList = glob_glob L (path_join TestImgDir (''*'' @ ImageExtension))
           in Adjust_loop L TrainMean TrainStd OutputDir Threshold TestImgPathList w1))"

section \<open>The segmentation script\<close>

text \<open>
  The model's output for one image is an array of floats of shape
  (rows, columns, classes): its three dimensions and the value at each index. The
  values are finite floats; comparing them is exact, so they are reals here.
\<close>

record tensor =
  t_rows :: nat
  t_cols :: nat
  t_classes :: nat
  t_at :: "nat \<Rightarrow> nat \<Rightarrow> nat \<Rightarrow> real"

text \<open>
  \<open>argmax\<close> along the last axis, as numpy and TensorFlow's CPU kernel compute it: one
  pass that keeps the first index of the largest value seen, replaced only by a
  strictly larger one. \<open>argmax_scan xs i b v\<close> continues at index \<open>i\<close> with the best
  index \<open>b\<close> and its value \<open>v\<close>.
\<close>

fun argmax_scan :: "real list \<Rightarrow> nat \<Rightarrow> nat \<Rightarrow> real \<Rightarrow> nat" where
  "argmax_scan [] i b v = b"
| "argmax_scan (x # xs) i b v =
     (if v < x then argmax_scan xs (Suc i) i x else argmax_scan xs (Suc i) b v)"

fun argmax :: "real list \<Rightarrow> nat" where
  "argmax [] = 0"
| "argmax (x # xs) = argmax_scan xs 1 0 x"

text \<open>The class probabilities of one pixel.\<close>

definition classes_at :: "tensor \<Rightarrow> nat \<Rightarrow> nat \<Rightarrow> real list" where
  "classes_at t i j = map (t_at t i j) [0..<t_classes t]"

text \<open>
  \<^verbatim>\<open>
  def ConvertYtoSegImg(PredOneHot, ImgSize):
      PredOneHot = tf.argmax(PredOneHot, axis=-1).numpy() if hasattr(...) else tf.argmax(PredOneHot, axis=-1)
      # bare ground (1) is black, everything else white
      mask = (PredOneHot == 1)
      PredData = np.ones((ImgSize[0], ImgSize[1], ImgSize[2]), dtype=np.uint8) * 255
      PredData[mask] = [0, 0, 0]
      return PredData
  \<close>
  \<open>tf.argmax\<close> raises on an axis of size 0. The assignment through the boolean mask
  raises IndexError unless the mask has the shape of the first two dimensions of
  \<open>PredData\<close>, and ValueError unless the three values fit the last one.
\<close>

definition ConvertYtoSegImg :: "tensor \<Rightarrow> nat \<times> nat \<times> nat \<Rightarrow> error + color" where
  "ConvertYtoSegImg PredOneHot ImgSize =
     (case ImgSize of (H, W, C) \<Rightarrow>
        if t_classes PredOneHot = 0 then Inl TfError
        else
          let idx = map (\<lambda>i. map (\<lambda>j. argmax (classes_at PredOneHot i j)) [0..<t_cols PredOneHot])
                      [0..<t_rows PredOneHot];
              msk = map (map (\<lambda>k. k = 1)) idx;
              PredData = replicate H (replicate W (replicate C (255 :: u8)))
          in if (t_rows PredOneHot, t_cols PredOneHot) \<noteq> (H, W) then Inl IndexError
             else if C \<noteq> 3 then Inl ValueError
             else Inr (map2 (map2 (\<lambda>m px. if m then [0, 0, 0] else px)) msk PredData))"

text \<open>
  The specification's words for the class a pixel is given: the lowest class index
  that attains the pixel's maximum probability.
\<close>

definition lowest_max_index :: "real list \<Rightarrow> nat \<Rightarrow> bool" where
  "lowest_max_index ps k \<longleftrightarrow>
     k < length ps \<and> (\<forall>c \<in> {..<length ps}. ps ! c \<le> ps ! k) \<and> (\<forall>c \<in> {..<k}. ps ! c < ps ! k)"

text \<open>
  EnsembleSeg.py also resizes images (\<open>cv2.resize(img, (width, height),
  interpolation=cv2.INTER_NEAREST)\<close>, which raises on an empty size) and loads a Keras
  model, whose \<open>predict\<close> on the batch of one scaled image gives the tensor.
\<close>

record seglib = "color cvlib" +
  resize :: "color \<Rightarrow> nat \<times> nat \<Rightarrow> error + color"
  load_model :: "string \<Rightarrow> error + (fl list list list \<Rightarrow> error + tensor)"

definition img_height :: "color \<Rightarrow> nat" where
  "img_height img = length img"

definition img_width :: "color \<Rightarrow> nat" where
  "img_width img = (case img of [] \<Rightarrow> 0 | row # _ \<Rightarrow> length row)"

text \<open>
  \<^verbatim>\<open>
  def Evaluation(ModelPath, TestImgPathList, ImgSize):
      K.clear_session()
      Model = load_model(ModelPath, compile=False)
      LikelihoodList = []
      for TestXPath in TestImgPathList:
          print(TestXPath)
          ImgData = ReadImg(TestXPath)
          ImgData = cv2.resize(ImgData, (ImgSize[1], ImgSize[0]), interpolation=cv2.INTER_NEAREST)
          ImgData = ImgData.astype('float32') / 255.
          PredOneHot = Model.predict(np.array([ImgData]))
          LikelihoodList.append(PredOneHot[0])
      return np.array(LikelihoodList)
  \<close>
  \<open>cv2.resize(None, ...)\<close> raises \<open>cv2.error\<close>. \<open>np.array\<close> stacks the tensors, which
  must all have one shape. The \<open>print\<close> is not part of the model.
\<close>

fun Evaluation_loop ::
  "seglib \<Rightarrow> (fl list list list \<Rightarrow> error + tensor) \<Rightarrow> nat \<times> nat \<times> nat \<Rightarrow> string list
     \<Rightarrow> tensor list \<Rightarrow> world \<Rightarrow> (error + tensor list) \<times> world" where
  "Evaluation_loop L Model ImgSize [] LikelihoodList w = (Inr LikelihoodList, w)"
| "Evaluation_loop L Model ImgSize (TestXPath # rest) LikelihoodList w =
     (case ReadImg L TestXPath w of
        (Inl e, w1) \<Rightarrow> (Inl e, w1)
      | (Inr None, w1) \<Rightarrow> (Inl CvError, w1)
      | (Inr (Some ImgData), w1) \<Rightarrow>
          (case resize L ImgData (fst (snd ImgSize), fst ImgSize) of
             Inl e \<Rightarrow> (Inl e, w1)
           | Inr Resized \<Rightarrow>
               (let Scaled = map (map (map (\<lambda>x. fl_div (float_of_u8 x) (Fin 255)))) Resized
                in case Model Scaled of
                     Inl e \<Rightarrow> (Inl e, w1)
                   | Inr PredOneHot \<Rightarrow>
                       Evaluation_loop L Model ImgSize rest (LikelihoodList @ [PredOneHot])
                         (log (Predicted TestXPath) w1))))"

definition same_shape :: "tensor \<Rightarrow> tensor \<Rightarrow> bool" where
  "same_shape a b \<longleftrightarrow>
     t_rows a = t_rows b \<and> t_cols a = t_cols b \<and> t_classes a = t_classes b"

definition Evaluation ::
  "seglib \<Rightarrow> string \<Rightarrow> string list \<Rightarrow> nat \<times> nat \<times> nat \<Rightarrow> world \<Rightarrow> (error + tensor list) \<times> world" where
  "Evaluation L ModelPath TestImgPathList ImgSize w =
     (case load_model L ModelPath of
        Inl e \<Rightarrow> (Inl e, w)
      | Inr Model \<Rightarrow>
          (case Evaluation_loop L Model ImgSize TestImgPathList [] w of
             (Inl e, w1) \<Rightarrow> (Inl e, w1)
           | (Inr LikelihoodList, w1) \<Rightarrow>
               if list_all (\<lambda>t. same_shape t (hd LikelihoodList)) LikelihoodList
               then (Inr LikelihoodList, w1) else (Inl ValueError, w1)))"

text \<open>
  \<^verbatim>\<open>
  def RunInf(TestImgDir, ImageExtension, ModelPath, ImgSize, OutputDir):
      TestImgPathList = glob.glob(os.path.join(TestImgDir, '*' + ImageExtension))
      TestImgPathList.sort()
      AllLikelihoodList = Evaluation(ModelPath, TestImgPathList, tuple(ImgSize))
      for TestXPath, Likelihood in zip(TestImgPathList, AllLikelihoodList):
          ImgData = ReadImg(TestXPath)
          PredImg = ConvertYtoSegImg(Likelihood, tuple(ImgSize))
          PredImg = cv2.resize(PredImg, (ImgData.shape[1], ImgData.shape[0]), interpolation=cv2.INTER_NEAREST)
          BaseFilename = os.path.splitext(os.path.basename(TestXPath))[0]
          OutputPath = os.path.join(OutputDir, BaseFilename + '_Seg.jpg')
          WriteImg(OutputPath, PredImg)
  \<close>
  \<open>ImgData.shape\<close> raises AttributeError when \<open>ReadImg\<close> returned \<open>None\<close>.
\<close>

definition RunInf_OutputPath :: "string \<Rightarrow> string \<Rightarrow> string" where
  "RunInf_OutputPath OutputDir TestXPath =
     (let BaseFilename = fst (splitext (basename TestXPath))
      in path_join OutputDir (BaseFilename @ ''_Seg.jpg''))"

fun RunInf_loop ::
  "seglib \<Rightarrow> nat \<times> nat \<times> nat \<Rightarrow> string \<Rightarrow> (string \<times> tensor) list \<Rightarrow> world \<Rightarrow> (error + unit) \<times> world" where
  "RunInf_loop L ImgSize OutputDir [] w = (Inr (), w)"
| "RunInf_loop L ImgSize OutputDir ((TestXPath, Likelihood) # rest) w =
     (case ReadImg L TestXPath w of
        (Inl e, w1) \<Rightarrow> (Inl e, w1)
      | (Inr ImgData, w1) \<Rightarrow>
          (case ConvertYtoSegImg Likelihood ImgSize of
             Inl e \<Rightarrow> (Inl e, w1)
           | Inr PredImg \<Rightarrow>
               (case ImgData of
                  None \<Rightarrow> (Inl AttributeError, w1)
                | Some Img \<Rightarrow>
                    (case resize L PredImg (img_width Img, img_height Img) of
                       Inl e \<Rightarrow> (Inl e, w1)
                     | Inr Resized \<Rightarrow>
                         (let OutputPath = RunInf_OutputPath OutputDir TestXPath
                          in case WriteImg L OutputPath Resized w1 of
                               (Inl e, w2) \<Rightarrow> (Inl e, w2)
                             | (Inr _, w2) \<Rightarrow> RunInf_loop L ImgSize OutputDir rest w2)))))"

definition RunInf ::
  "seglib \<Rightarrow> string \<Rightarrow> string \<Rightarrow> string \<Rightarrow> nat \<times> nat \<times> nat \<Rightarrow> string \<Rightarrow> world \<Rightarrow> (error + unit) \<times> world" where
  "RunInf L TestImgDir ImageExtension ModelPath ImgSize OutputDir w =
     (let TestImgPathList = sort (glob_glob L (path_join TestImgDir (''*'' @ ImageExtension)))
      in case Evaluation L ModelPath TestImgPathList ImgSize w of
           (Inl e, w1) \<Rightarrow> (Inl e, w1)
         | (Inr AllLikelihoodList, w1) \<Rightarrow>
             RunInf_loop L ImgSize OutputDir (zip TestImgPathList AllLikelihoodList) w1)"

text \<open>
  The order the specification asks of a run, for an image and the one after it: the
  first image's output is written, and the next image is not opened before that.
\<close>

definition written_before_read :: "event list \<Rightarrow> string \<Rightarrow> string \<Rightarrow> bool" where
  "written_before_read tr out nxt \<longleftrightarrow>
     Opened_w out \<in> set tr \<and> Opened_r nxt \<notin> set (takeWhile (\<lambda>e. e \<noteq> Opened_w out) tr)"

section \<open>Concrete inputs\<close>

text \<open>The tensor of the specification's scenario B: two by two pixels, two classes;
  the pixel (0,0) has probability 0.9 for class 1, the others do not favour class 1.\<close>

definition scenario_B :: tensor where
  "scenario_B = \<lparr>t_rows = 2, t_cols = 2, t_classes = 2,
     t_at = (\<lambda>i j c. if i = 0 \<and> j = 0 then (if c = 1 then 9 / 10 else 1 / 10)
                      else (if c = 1 then 1 / 2 else 1 / 2))\<rparr>"


text \<open>
  A small world for the normalization script: one training image, two test images and
  a file that is not an image. The decoder gives a uniform 2 by 2 image of value 50 for
  every file but the broken one, and the statistics are those of that image; the
  encoder knows the extension \<open>.png\<close> only.
\<close>

definition gray_lib :: graylib where
  "gray_lib = \<lparr>
     glob_glob = (\<lambda>pat. if pat = ''train/*.png'' then [''train/t.png'']
                       else if pat = ''test/*.png'' then [''test/a.png'', ''test/b.png'']
                       else []),
     imdecode = (\<lambda>d. if d = [] then Inl CvError
                      else if hd d = 0 then Inr None
                      else Inr (Some [[50, 50], [50, 50]])),
     imencode = (\<lambda>ext img. if ext = ''.png'' then Inr (True, [137, 80]) else Inl CvError),
     can_create = (\<lambda>p. True),
     meanStdDev = (\<lambda>img. (Fin 50, Fin 0))\<rparr>"

definition world0 :: world where
  "world0 = \<lparr>
     files = [''train/t.png'' \<mapsto> [1], ''test/a.png'' \<mapsto> [1], ''test/b.png'' \<mapsto> [1],
              ''test/bad.png'' \<mapsto> [0]],
     trace = []\<rparr>"

text \<open>
  The same world for the segmentation script: images decode to one colour pixel, the
  listing comes unsorted, the model answers with the tensor of scenario B, resizing a
  one-pixel image repeats the pixel, and the encoder knows \<open>.jpg\<close> only.
\<close>

definition seg_lib :: seglib where
  "seg_lib = \<lparr>
     glob_glob = (\<lambda>pat. if pat = ''test/*.png'' then [''test/b.png'', ''test/a.png''] else []),
     imdecode = (\<lambda>d. if d = [] then Inl CvError
                      else if hd d = 0 then Inr None
                      else Inr (Some [[[10, 20, 30]]])),
     imencode = (\<lambda>ext img. if ext = ''.jpg'' then Inr (True, [255, 216]) else Inl CvError),
     can_create = (\<lambda>p. True),
     resize = (\<lambda>img (w, h). if w = 0 \<or> h = 0 \<or> img = [] then Inl CvError
                           else Inr (replicate h (replicate w (hd (hd img))))),
     load_model = (\<lambda>p. if p = ''model.h5'' then Inr (\<lambda>x. Inr scenario_B) else Inl OSError)\<rparr>"

section \<open>Properties of DrawBlackBasedThreshold\<close>

lemma map2_same: "map2 f (map g xs) xs = map (\<lambda>x. f (g x) x) xs"
  by (induction xs) simp_all

lemma masked_rows:
  "map2 (map2 (\<lambda>m x. if m then v else x)) (map (map p) arr) arr
     = map (map (\<lambda>x. if p x then v else x)) arr"
  by (induction arr) (simp_all add: map2_same)

lemma DrawBlackBasedThreshold_result:
  "DrawBlackBasedThreshold h a t =
     (h @ [map (map (suppressed t)) (h ! a)], length h)"
  by (simp add: DrawBlackBasedThreshold_def ndarray_copy_def less_scalar_def
      setitem_mask_def masked_rows suppressed_def [abs_def])

lemma suppressed_idem: "suppressed t (suppressed t x) = suppressed t x"
  by (simp add: suppressed_def)

text \<open>
  C5. For every image and every threshold, DrawBlackBasedThreshold returns a new array
  of the same shape in which every sample is 0 or the corresponding input sample, every
  input sample that is at least the threshold is unchanged, and the array passed in
  (like every other array of the store) still has the contents it had before.
\<close>

theorem DrawBlackBasedThreshold_copy:
  assumes "a < length h"
    and "DrawBlackBasedThreshold h a t = (h', r)"
  shows "r \<noteq> a \<and> r < length h' \<and> (\<forall>b < length h. h' ! b = h ! b)
    \<and> length (h' ! r) = length (h ! a)
    \<and> (\<forall>i < length (h ! a). length (h' ! r ! i) = length (h ! a ! i)
        \<and> (\<forall>j < length (h ! a ! i).
             (h' ! r ! i ! j = 0 \<or> h' ! r ! i ! j = h ! a ! i ! j)
           \<and> (t \<le> real (unat (h ! a ! i ! j)) \<longrightarrow> h' ! r ! i ! j = h ! a ! i ! j)))"
proof -
  from assms(2) have h': "h' = h @ [map (map (suppressed t)) (h ! a)]" and r: "r = length h"
    by (simp_all add: DrawBlackBasedThreshold_result)
  have out: "h' ! r = map (map (suppressed t)) (h ! a)"
    by (simp add: h' r)
  have old: "\<forall>b < length h. h' ! b = h ! b"
    by (simp add: h' nth_append)
  show ?thesis
    using assms(1) old by (simp add: out r h' suppressed_def)
qed

theorem DrawBlackBasedThreshold_copy_witness:
  "DrawBlackBasedThreshold [[[10, 200], [128, 127]]] 0 128
     = ([[[10, 200], [128, 127]], [[0, 200], [128, 0]]], 1)
   \<and> [[[10, 200], [128, 127 :: u8]], [[0, 200], [128, 0]]] ! 0 = [[[10, 200], [128, 127]]] ! 0"
proof -
  have run: "DrawBlackBasedThreshold [[[10, 200], [128, 127]]] 0 128
     = ([[[10, 200], [128, 127]], [[0, 200], [128, 0]]], 1)"
    by (simp add: DrawBlackBasedThreshold_result suppressed_def)
  have "0 < length [[[10, 200], [128, 127 :: u8]]]" by simp
  from DrawBlackBasedThreshold_copy [OF this run] run show ?thesis by simp
qed

text \<open>
  C10. DrawBlackBasedThreshold is idempotent: applied with the same threshold to its own
  result, it returns an array equal to that result, sample by sample.
\<close>

theorem DrawBlackBasedThreshold_idempotent:
  "DrawBlackBasedThreshold h a t = (h1, r1) \<Longrightarrow>
   DrawBlackBasedThreshold h1 r1 t = (h2, r2) \<Longrightarrow> h2 ! r2 = h1 ! r1"
  by (auto simp: DrawBlackBasedThreshold_result nth_append suppressed_idem)

theorem DrawBlackBasedThreshold_idempotent_witness:
  "DrawBlackBasedThreshold [[[10, 200], [128, 127]]] 0 128
     = ([[[10, 200], [128, 127]], [[0, 200], [128, 0]]], 1)
   \<and> DrawBlackBasedThreshold [[[10, 200], [128, 127]], [[0, 200], [128, 0]]] 1 128
     = ([[[10, 200], [128, 127]], [[0, 200], [128, 0]], [[0, 200], [128, 0]]], 2)
   \<and> [[[10, 200], [128, 127 :: u8]], [[0, 200], [128, 0]], [[0, 200], [128, 0]]] ! 2
     = [[[10, 200], [128, 127]], [[0, 200], [128, 0]]] ! 1"
proof -
  have run1: "DrawBlackBasedThreshold [[[10, 200], [128, 127]]] 0 128
     = ([[[10, 200], [128, 127]], [[0, 200], [128, 0]]], 1)"
    by (simp add: DrawBlackBasedThreshold_result suppressed_def)
  have run2: "DrawBlackBasedThreshold [[[10, 200], [128, 127]], [[0, 200], [128, 0]]] 1 128
     = ([[[10, 200], [128, 127]], [[0, 200], [128, 0]], [[0, 200], [128, 0]]], 2)"
    by (simp add: DrawBlackBasedThreshold_result suppressed_def)
  from DrawBlackBasedThreshold_idempotent [OF run1 run2] run1 run2 show ?thesis by simp
qed

section \<open>Properties of AdjustImage\<close>












section \<open>Properties of the path functions\<close>







section \<open>Properties of ReadImg, WriteImg and the statistics\<close>

lemma ReadImg_Inr:
  "ReadImg L Path w = (Inr x, w') \<Longrightarrow> w' = log (Opened_r Path) w"
  by (auto simp: ReadImg_def split: option.splits)

lemma CalcMeanStd_Inr:
  "CalcMeanStd L Path w = (Inr x, w') \<Longrightarrow> w' = log (Opened_r Path) w"
  by (auto simp: CalcMeanStd_def split: prod.splits sum.splits option.splits dest: ReadImg_Inr)

lemma WriteImg_Inr:
  "WriteImg L Path ImgData w = (Inr u, w') \<Longrightarrow> trace w' = trace w @ [Opened_w Path]"
  by (auto simp: WriteImg_def log_def split: sum.splits prod.splits if_splits)

lemma GetImgMeanStd_loop_trace:
  "GetImgMeanStd_loop L ps ml sl w = (Inr x, w') \<Longrightarrow> trace w' = trace w @ map Opened_r ps"
proof (induction ps arbitrary: ml sl w)
  case Nil
  then show ?case by simp
next
  case (Cons p ps)
  from Cons.prems obtain m s img w1 where
    c: "CalcMeanStd L p w = (Inr (m, s, img), w1)"
    and r: "GetImgMeanStd_loop L ps (ml @ [m]) (sl @ [s]) w1 = (Inr x, w')"
    by (auto split: prod.splits sum.splits)
  from CalcMeanStd_Inr [OF c] have "trace w1 = trace w @ [Opened_r p]"
    by (simp add: log_def)
  with Cons.IH [OF r] show ?case by simp
qed

lemma Adjust_loop_trace:
  "Adjust_loop L TrainMean TrainStd OutputDir Threshold ps w = (Inr u, w') \<Longrightarrow>
   trace w' = trace w @ concat (map (\<lambda>p. [Opened_r p, Opened_w (Adjust_OutputPath OutputDir p)]) ps)"
proof (induction ps arbitrary: w)
  case Nil
  then show ?case by simp
next
  case (Cons p ps)
  from Cons.prems obtain m s img w1 out u1 w2 where
    c: "CalcMeanStd L p w = (Inr (m, s, img), w1)"
    and wr: "WriteImg L (Adjust_OutputPath OutputDir p) out w1 = (Inr u1, w2)"
    and r: "Adjust_loop L TrainMean TrainStd OutputDir Threshold ps w2 = (Inr u, w')"
    by (auto simp: Let_def split: prod.splits sum.splits)
  from CalcMeanStd_Inr [OF c] have "trace w1 = trace w @ [Opened_r p]"
    by (simp add: log_def)
  with WriteImg_Inr [OF wr] Cons.IH [OF r] show ?case by simp
qed

lemma Adjust_trace:
  assumes "Adjust L TrainImgDir TestImgDir ImageExtension OutputDir Threshold w = (Inr u, w')"
  shows "trace w' = trace w
     @ map Opened_r (glob_glob L (path_join TrainImgDir (''*'' @ ImageExtension)))
     @ concat (map (\<lambda>p. [Opened_r p, Opened_w (Adjust_OutputPath OutputDir p)])
                (glob_glob L (path_join TestImgDir (''*'' @ ImageExtension))))"
proof -
  from assms obtain ml sl w1 where
    g: "GetImgMeanStd_loop L (glob_glob L (path_join TrainImgDir (''*'' @ ImageExtension))) [] [] w
          = (Inr (ml, sl), w1)"
    and l: "Adjust_loop L (np_mean ml) (np_mean sl) OutputDir Threshold
              (glob_glob L (path_join TestImgDir (''*'' @ ImageExtension))) w1 = (Inr u, w')"
    by (auto simp: Adjust_def GetImgMeanStd_def Let_def split: prod.splits sum.splits)
  from GetImgMeanStd_loop_trace [OF g] Adjust_loop_trace [OF l] show ?thesis by simp
qed

lemma Evaluation_loop_trace:
  "Evaluation_loop L Model ImgSize ps acc w = (Inr ls, w') \<Longrightarrow>
   trace w' = trace w @ concat (map (\<lambda>p. [Opened_r p, Predicted p]) ps)
   \<and> length ls = length acc + length ps"
proof (induction ps arbitrary: acc w)
  case Nil
  then show ?case by simp
next
  case (Cons p ps)
  from Cons.prems obtain img w1 t where
    rd: "ReadImg L p w = (Inr (Some img), w1)"
    and r: "Evaluation_loop L Model ImgSize ps (acc @ [t]) (log (Predicted p) w1) = (Inr ls, w')"
    by (auto simp: Let_def split: prod.splits sum.splits option.splits)
  from ReadImg_Inr [OF rd] have "trace (log (Predicted p) w1) = trace w @ [Opened_r p, Predicted p]"
    by (simp add: log_def)
  with Cons.IH [OF r] show ?case by simp
qed

lemma RunInf_loop_trace:
  "RunInf_loop L ImgSize OutputDir pairs w = (Inr u, w') \<Longrightarrow>
   trace w' = trace w
     @ concat (map (\<lambda>p. [Opened_r p, Opened_w (RunInf_OutputPath OutputDir p)]) (map fst pairs))"
proof (induction pairs arbitrary: w)
  case Nil
  then show ?case by simp
next
  case (Cons pl pairs)
  obtain p l where pl: "pl = (p, l)" by (cases pl)
  from Cons.prems obtain x w1 out u1 w2 where
    rd: "ReadImg L p w = (Inr x, w1)"
    and wr: "WriteImg L (RunInf_OutputPath OutputDir p) out w1 = (Inr u1, w2)"
    and r: "RunInf_loop L ImgSize OutputDir pairs w2 = (Inr u, w')"
    unfolding pl by (auto simp: Let_def split: prod.splits sum.splits option.splits)
  from ReadImg_Inr [OF rd] have "trace w1 = trace w @ [Opened_r p]"
    by (simp add: log_def)
  with WriteImg_Inr [OF wr] Cons.IH [OF r] show ?case by (simp add: pl)
qed

lemma RunInf_trace:
  assumes "RunInf L TestImgDir ImageExtension ModelPath ImgSize OutputDir w = (Inr u, w')"
  shows "trace w' = trace w
     @ concat (map (\<lambda>p. [Opened_r p, Predicted p])
                (sort (glob_glob L (path_join TestImgDir (''*'' @ ImageExtension)))))
     @ concat (map (\<lambda>p. [Opened_r p, Opened_w (RunInf_OutputPath OutputDir p)])
                (sort (glob_glob L (path_join TestImgDir (''*'' @ ImageExtension)))))"
proof -
  let ?ps = "sort (glob_glob L (path_join TestImgDir (''*'' @ ImageExtension)))"
  from assms obtain Model ls w1 where
    e: "Evaluation_loop L Model ImgSize ?ps [] w = (Inr ls, w1)"
    and l: "RunInf_loop L ImgSize OutputDir (zip ?ps ls) w1 = (Inr u, w')"
    by (auto simp: RunInf_def Evaluation_def Let_def split: prod.splits sum.splits if_splits)
  from Evaluation_loop_trace [OF e] have t1: "trace w1 = trace w @ concat (map (\<lambda>p. [Opened_r p, Predicted p]) ?ps)"
    and len: "length ls = length ?ps" by simp_all
  from len have m: "map fst (zip ?ps ls) = ?ps" by simp
  from RunInf_loop_trace [OF l, unfolded m] t1 show ?thesis by simp
qed

section \<open>Errors of the statistics, the reader and the writer\<close>

text \<open>
  C1 (as the code has it). When the listing of the directory is empty, GetImgMeanStd
  raises nothing: the loop body never runs, \<open>np.mean\<close> of the two empty lists is NaN,
  and the pair (NaN, NaN) is returned, the files untouched.
\<close>

theorem GetImgMeanStd_empty_listing:
  assumes "glob_glob L (path_join ImgDir (''*'' @ ImageExtension)) = []"
  shows "GetImgMeanStd L ImgDir ImageExtension w = (Inr (NaN, NaN), w)"
  using assms by (simp add: GetImgMeanStd_def np_mean_def)

theorem GetImgMeanStd_empty_listing_witness:
  "glob_glob gray_lib (path_join ''empty'' (''*'' @ ''.png'')) = []
   \<and> GetImgMeanStd gray_lib ''empty'' ''.png'' world0 = (Inr (NaN, NaN), world0)"
proof -
  have h: "glob_glob gray_lib (path_join ''empty'' (''*'' @ ''.png'')) = []"
    by code_simp
  from h GetImgMeanStd_empty_listing [OF h] show ?thesis by (intro conjI)
qed

text \<open>The claim as stated fails: on an empty listing the result is a value, the pair
  of NaNs, not an error.\<close>

theorem GetImgMeanStd_empty_counterexample:
  "fst (GetImgMeanStd gray_lib ''empty'' ''.png'' world0) = Inr (NaN, NaN)"
  by code_simp






section \<open>The order of a run and the names of its outputs\<close>

lemma run_collapse: "fst r = Inr () \<Longrightarrow> r = (Inr (), snd r)"
  by (cases r) simp

lemma Adjust_example_ok:
  "fst (Adjust gray_lib ''train'' ''test'' ''.png'' ''out'' 0 world0) = Inr ()"
  by code_simp

lemma RunInf_example_ok:
  "fst (RunInf seg_lib ''test'' ''.png'' ''model.h5'' (2, 2, 3) ''out'' world0) = Inr ()"
  by code_simp

text \<open>
  C6 (as the code has it). A successful run of Adjust opens the training images, then
  handles the test images one at a time: each is read and its output written before
  the next is read. A successful run of RunInf goes over the sorted listing twice:
  Evaluation first reads every image and predicts on it, and only then is each image
  read again and its mask written.
\<close>

theorem runs_in_order:
  "(Adjust L TrainImgDir TestImgDir ImageExtension OutputDir Threshold w = (Inr u, w') \<longrightarrow>
      trace w' = trace w
        @ map Opened_r (glob_glob L (path_join TrainImgDir (''*'' @ ImageExtension)))
        @ concat (map (\<lambda>p. [Opened_r p, Opened_w (Adjust_OutputPath OutputDir p)])
                   (glob_glob L (path_join TestImgDir (''*'' @ ImageExtension)))))
   \<and> (RunInf S SegImgDir SegExtension ModelPath ImgSize SegOutputDir v = (Inr u', v') \<longrightarrow>
      trace v' = trace v
        @ concat (map (\<lambda>p. [Opened_r p, Predicted p])
                   (sort (glob_glob S (path_join SegImgDir (''*'' @ SegExtension)))))
        @ concat (map (\<lambda>p. [Opened_r p, Opened_w (RunInf_OutputPath SegOutputDir p)])
                   (sort (glob_glob S (path_join SegImgDir (''*'' @ SegExtension))))))"
  using Adjust_trace RunInf_trace by blast

theorem runs_in_order_witness:
  "fst (Adjust gray_lib ''train'' ''test'' ''.png'' ''out'' 0 world0) = Inr ()
   \<and> trace (snd (Adjust gray_lib ''train'' ''test'' ''.png'' ''out'' 0 world0))
       = [Opened_r ''train/t.png'',
          Opened_r ''test/a.png'', Opened_w ''out/a.png'',
          Opened_r ''test/b.png'', Opened_w ''out/b.png'']
   \<and> fst (RunInf seg_lib ''test'' ''.png'' ''model.h5'' (2, 2, 3) ''out'' world0) = Inr ()
   \<and> trace (snd (RunInf seg_lib ''test'' ''.png'' ''model.h5'' (2, 2, 3) ''out'' world0))
       = [Opened_r ''test/a.png'', Predicted ''test/a.png'',
          Opened_r ''test/b.png'', Predicted ''test/b.png'',
          Opened_r ''test/a.png'', Opened_w ''out/a_Seg.jpg'',
          Opened_r ''test/b.png'', Opened_w ''out/b_Seg.jpg'']"
proof -
  let ?A = "Adjust gray_lib ''train'' ''test'' ''.png'' ''out'' 0 world0"
  let ?R = "RunInf seg_lib ''test'' ''.png'' ''model.h5'' (2, 2, 3) ''out'' world0"
  have a: "?A = (Inr (), snd ?A)" using Adjust_example_ok by (rule run_collapse)
  have r: "?R = (Inr (), snd ?R)" using RunInf_example_ok by (rule run_collapse)
  note t = runs_in_order [of gray_lib "''train''" "''test''" "''.png''" "''out''" 0 world0
      "()" "snd ?A" seg_lib "''test''" "''.png''" "''model.h5''" "(2, 2, 3)" "''out''" world0
      "()" "snd ?R"]
  from t a have "trace (snd ?A) = trace world0
        @ map Opened_r (glob_glob gray_lib (path_join ''train'' (''*'' @ ''.png'')))
        @ concat (map (\<lambda>p. [Opened_r p, Opened_w (Adjust_OutputPath ''out'' p)])
                   (glob_glob gray_lib (path_join ''test'' (''*'' @ ''.png''))))"
    by blast
  also have "\<dots> = [Opened_r ''train/t.png'',
          Opened_r ''test/a.png'', Opened_w ''out/a.png'',
          Opened_r ''test/b.png'', Opened_w ''out/b.png'']"
    by code_simp
  finally have ta: "trace (snd ?A) = [Opened_r ''train/t.png'',
          Opened_r ''test/a.png'', Opened_w ''out/a.png'',
          Opened_r ''test/b.png'', Opened_w ''out/b.png'']" .
  from t r have "trace (snd ?R) = trace world0
        @ concat (map (\<lambda>p. [Opened_r p, Predicted p])
                   (sort (glob_glob seg_lib (path_join ''test'' (''*'' @ ''.png'')))))
        @ concat (map (\<lambda>p. [Opened_r p, Opened_w (RunInf_OutputPath ''out'' p)])
                   (sort (glob_glob seg_lib (path_join ''test'' (''*'' @ ''.png'')))))"
    by blast
  also have "\<dots> = [Opened_r ''test/a.png'', Predicted ''test/a.png'',
          Opened_r ''test/b.png'', Predicted ''test/b.png'',
          Opened_r ''test/a.png'', Opened_w ''out/a_Seg.jpg'',
          Opened_r ''test/b.png'', Opened_w ''out/b_Seg.jpg'']"
    by code_simp
  finally have tr: "trace (snd ?R) = [Opened_r ''test/a.png'', Predicted ''test/a.png'',
          Opened_r ''test/b.png'', Predicted ''test/b.png'',
          Opened_r ''test/a.png'', Opened_w ''out/a_Seg.jpg'',
          Opened_r ''test/b.png'', Opened_w ''out/b_Seg.jpg'']" .
  from Adjust_example_ok ta RunInf_example_ok tr show ?thesis by (intro conjI)
qed

text \<open>The claim as stated fails for RunInf: in a run over two images the second image
  is opened, and predicted on, before the output of the first is written.\<close>

theorem RunInf_order_counterexample:
  "fst (RunInf seg_lib ''test'' ''.png'' ''model.h5'' (2, 2, 3) ''out'' world0) = Inr ()
   \<and> trace (snd (RunInf seg_lib ''test'' ''.png'' ''model.h5'' (2, 2, 3) ''out'' world0))
       = [Opened_r ''test/a.png'', Predicted ''test/a.png'',
          Opened_r ''test/b.png'', Predicted ''test/b.png'',
          Opened_r ''test/a.png'', Opened_w ''out/a_Seg.jpg'',
          Opened_r ''test/b.png'', Opened_w ''out/b_Seg.jpg'']
   \<and> \<not> written_before_read
         (trace (snd (RunInf seg_lib ''test'' ''.png'' ''model.h5'' (2, 2, 3) ''out'' world0)))
         ''out/a_Seg.jpg'' ''test/b.png''"
  by code_simp



lemma output_names_examples:
  "Adjust_OutputPath ''out'' ''in/foo.bmp'' = ''out/foo.png''
   \<and> RunInf_OutputPath ''out'' ''in/bar.png'' = ''out/bar_Seg.jpg''"
  by code_simp


section \<open>Properties of ConvertYtoSegImg\<close>

lemma argmax_scan_lowest:
  "length pre = i \<Longrightarrow> lowest_max_index pre b \<Longrightarrow> v = pre ! b
     \<Longrightarrow> lowest_max_index (pre @ xs) (argmax_scan xs i b v)"
proof (induction xs arbitrary: pre i b v)
  case Nil
  then show ?case by simp
next
  case (Cons x xs)
  have b: "b < length pre" and le: "\<And>c. c < length pre \<Longrightarrow> pre ! c \<le> pre ! b"
    and lt: "\<And>c. c < b \<Longrightarrow> pre ! c < pre ! b"
    using Cons.prems(2) by (auto simp: lowest_max_index_def)
  show ?case
  proof (cases "v < x")
    case True
    have "lowest_max_index (pre @ [x]) i"
      unfolding lowest_max_index_def
    proof (intro conjI ballI)
      show "i < length (pre @ [x])" using Cons.prems(1) by simp
    next
      fix c assume "c \<in> {..<length (pre @ [x])}"
      then have "c < length pre \<or> c = length pre" by auto
      then show "(pre @ [x]) ! c \<le> (pre @ [x]) ! i"
        using le [of c] True Cons.prems(1,3) by (auto simp: nth_append)
    next
      fix c assume "c \<in> {..<i}"
      then show "(pre @ [x]) ! c < (pre @ [x]) ! i"
        using le [of c] True Cons.prems(1,3) by (auto simp: nth_append)
    qed
    from Cons.IH [OF _ this, of "Suc i" x] Cons.prems(1) True
    show ?thesis by (simp add: nth_append)
  next
    case False
    have "lowest_max_index (pre @ [x]) b"
      unfolding lowest_max_index_def
    proof (intro conjI ballI)
      show "b < length (pre @ [x])" using b by simp
    next
      fix c assume "c \<in> {..<length (pre @ [x])}"
      then have "c < length pre \<or> c = length pre" by auto
      then show "(pre @ [x]) ! c \<le> (pre @ [x]) ! b"
        using le [of c] False b Cons.prems(3) by (auto simp: nth_append)
    next
      fix c assume "c \<in> {..<b}"
      then show "(pre @ [x]) ! c < (pre @ [x]) ! b"
        using lt [of c] b by (auto simp: nth_append)
    qed
    from Cons.IH [OF _ this, of "Suc i" v] Cons.prems(1,3) False b
    show ?thesis by (simp add: nth_append)
  qed
qed

lemma argmax_lowest: "ps \<noteq> [] \<Longrightarrow> lowest_max_index ps (argmax ps)"
proof (cases ps)
  case Nil
  moreover assume "ps \<noteq> []"
  ultimately show ?thesis by simp
next
  case (Cons x xs)
  have "lowest_max_index [x] 0" by (simp add: lowest_max_index_def)
  from argmax_scan_lowest [OF _ this, of 1 x xs] Cons show ?thesis by simp
qed

lemma lowest_max_index_unique:
  assumes "lowest_max_index ps k" "lowest_max_index ps k'"
  shows "k = k'"
proof (rule ccontr)
  assume "k \<noteq> k'"
  then consider "k < k'" | "k' < k" by linarith
  then show False
  proof cases
    case 1
    with assms(2) have "ps ! k < ps ! k'" by (simp add: lowest_max_index_def)
    moreover from assms have "ps ! k' \<le> ps ! k" by (simp add: lowest_max_index_def)
    ultimately show False by simp
  next
    case 2
    with assms(1) have "ps ! k' < ps ! k" by (simp add: lowest_max_index_def)
    moreover from assms have "ps ! k \<le> ps ! k'" by (simp add: lowest_max_index_def)
    ultimately show False by simp
  qed
qed

lemma argmax_eq_iff: "ps \<noteq> [] \<Longrightarrow> argmax ps = k \<longleftrightarrow> lowest_max_index ps k"
  using argmax_lowest lowest_max_index_unique by blast

lemma mask_row:
  "map2 f (map h js) (replicate (length js) c) = map (\<lambda>j. f (h j) c) js"
  by (induction js) simp_all

lemma mask_rows:
  "map2 (map2 f) (map (\<lambda>i. map (h i) js) is)
     (replicate (length is) (replicate (length js) c))
   = map (\<lambda>i. map (\<lambda>j. f (h i j) c) js) is"
  by (induction "is") (simp_all add: mask_row)

lemma ConvertYtoSegImg_value:
  assumes "0 < t_classes t"
  shows "ConvertYtoSegImg t (t_rows t, t_cols t, 3) =
     Inr (map (\<lambda>i. map (\<lambda>j. if argmax (classes_at t i j) = 1 then [0, 0, 0] else [255, 255, 255])
                 [0..<t_cols t]) [0..<t_rows t])"
  using assms
    mask_rows [of "\<lambda>m px. if m then [0, 0, 0] else px"
      "\<lambda>i j. argmax (classes_at t i j) = 1" "[0..<t_cols t]" "[0..<t_rows t]"
      "replicate 3 (255 :: u8)"]
  by (simp add: ConvertYtoSegImg_def comp_def numeral_3_eq_3)

text \<open>
  C4. For every probability tensor with at least one class (so for every one with two
  or more), decoded at its own resolution with three channels, ConvertYtoSegImg returns
  an image of that resolution in which a pixel is (0,0,0) exactly when the lowest class
  index attaining the pixel's maximum probability is 1, and (255,255,255) otherwise.
\<close>

theorem ConvertYtoSegImg_two_colors:
  assumes "0 < t_classes t"
  shows "\<exists>img. ConvertYtoSegImg t (t_rows t, t_cols t, 3) = Inr img
    \<and> length img = t_rows t
    \<and> (\<forall>i < t_rows t. length (img ! i) = t_cols t
        \<and> (\<forall>j < t_cols t.
              img ! i ! j = (if lowest_max_index (classes_at t i j) 1
                             then [0, 0, 0] else [255, 255, 255])))"
proof -
  have ne: "classes_at t i j \<noteq> []" for i j
    using assms by (simp add: classes_at_def)
  have "argmax (classes_at t i j) = 1 \<longleftrightarrow> lowest_max_index (classes_at t i j) 1" for i j
    using ne by (rule argmax_eq_iff)
  then show ?thesis
    by (simp add: ConvertYtoSegImg_value [OF assms])
qed

lemma scenario_B_decoded:
  "ConvertYtoSegImg scenario_B (2, 2, 3)
     = Inr [[[0, 0, 0], [255, 255, 255]], [[255, 255, 255], [255, 255, 255]]]"
  by code_simp

theorem ConvertYtoSegImg_two_colors_witness:
  "0 < t_classes scenario_B
   \<and> ConvertYtoSegImg scenario_B (2, 2, 3)
       = Inr [[[0, 0, 0], [255, 255, 255]], [[255, 255, 255], [255, 255, 255]]]
   \<and> (\<exists>img. ConvertYtoSegImg scenario_B (t_rows scenario_B, t_cols scenario_B, 3) = Inr img
        \<and> length img = t_rows scenario_B)"
proof -
  have h: "0 < t_classes scenario_B" by (simp add: scenario_B_def)
  from ConvertYtoSegImg_two_colors [OF h]
  have "\<exists>img. ConvertYtoSegImg scenario_B (t_rows scenario_B, t_cols scenario_B, 3) = Inr img
        \<and> length img = t_rows scenario_B"
    by blast
  with h scenario_B_decoded show ?thesis by (intro conjI)
qed


end
